theory Spec2Isabelle
  imports Complex_Main "HOL-Library.Multiset"
begin

section \<open>JavaScript values used by the indexer\<close>

text \<open>
  Block heights, start blocks, modulos and timestamps are JavaScript numbers holding
  integers; they are modelled as \<open>int\<close>. An optional field \<open>f?: T\<close> is a \<open>T option\<close>,
  \<open>None\<close> being \<open>undefined\<close>.
\<close>

datatype js_value =
    Undefined
  | Null
  | Bool bool
  | Num int
  | Str string
  | Arr "js_value list"
  | Obj "(string \<times> js_value) list"

text \<open>
  \<open>a % b\<close> on integers: the sign follows the dividend, and a zero divisor gives \<open>NaN\<close>
  (\<open>None\<close>). \<open>-0 === 0\<close> holds, so a negative multiple has remainder \<open>0\<close>.
\<close>

definition js_rem :: "int \<Rightarrow> int \<Rightarrow> int option" where
  "js_rem a b = (if b = 0 then None else Some (sgn a * (\<bar>a\<bar> mod \<bar>b\<bar>)))"

text \<open>\<open>Math.max(...xs)\<close>: \<open>-Infinity\<close> (\<open>None\<close>) for no argument.\<close>

fun math_max :: "int list \<Rightarrow> int option" where
  "math_max [] = None"
| "math_max (x # xs) = (case math_max xs of None \<Rightarrow> Some x | Some m \<Rightarrow> Some (max x m))"

text \<open>\<open>b < m\<close> for \<open>m\<close> a result of \<open>Math.max\<close>: nothing is below \<open>-Infinity\<close>.\<close>

definition lt_math_max :: "int \<Rightarrow> int option \<Rightarrow> bool" where
  "lt_math_max b m = (case m of None \<Rightarrow> False | Some v \<Rightarrow> b < v)"

text \<open>\<open>a > b\<close> and \<open>a >= b\<close> where \<open>b\<close> may be \<open>undefined\<close>: both are false then.\<close>

definition js_gt :: "int \<Rightarrow> int option \<Rightarrow> bool" where
  "js_gt a b = (case b of None \<Rightarrow> False | Some v \<Rightarrow> a > v)"

definition js_ge :: "int \<Rightarrow> int option \<Rightarrow> bool" where
  "js_ge a b = (case b of None \<Rightarrow> False | Some v \<Rightarrow> a \<ge> v)"

text \<open>\<open>xs.slice(0, n)\<close>: a negative \<open>n\<close> counts from the end.\<close>

definition slice0 :: "'a list \<Rightarrow> int \<Rightarrow> 'a list" where
  "slice0 xs n = (if 0 \<le> n then take (nat n) xs else take (length xs - nat (- n)) xs)"

text \<open>
  lodash \<open>range(start, end)\<close> with no step: ascending up to but excluding \<open>end\<close>, and
  descending with step \<open>-1\<close> when \<open>end\<close> is below \<open>start\<close>.
\<close>

definition lodash_range :: "int \<Rightarrow> int \<Rightarrow> int list" where
  "lodash_range start end' =
     (if start < end' then [start..end' - 1] else rev [end' + 1..start])"

text \<open>lodash \<open>without(xs, ...vs)\<close>: every occurrence of a member of \<open>vs\<close> is removed.\<close>

definition without :: "'a list \<Rightarrow> 'a list \<Rightarrow> 'a list" where
  "without xs vs = filter (\<lambda>x. x \<notin> set vs) xs"

text \<open>
  \<open>xs.sort((a, b) => a - b)\<close> on integers is the ascending sort. The result does not
  depend on the sorting algorithm, so the library's \<open>sort\<close> stands for it.
\<close>

definition sort_asc :: "int list \<Rightarrow> int list" where
  "sort_asc xs = sort xs"

section \<open>Project data model (src/packages/types/src/project.ts)\<close>

datatype NearDatasourceKind = Runtime | CustomKind string

datatype NearHandlerKind = Block | Transaction | Action | CustomHandlerKind string

record NearBlockFilter =
  modulo :: "int option"
  timestamp :: "string option"

record NearTransactionFilter =
  sender :: "string option"
  receiver :: "string option"

record NearActionFilter =
  filter_type :: "string option"

datatype NearHandlerFilter =
    BlockF NearBlockFilter
  | TransactionF NearTransactionFilter
  | ActionF NearActionFilter

record NearHandler =
  handler_kind :: NearHandlerKind
  handler_name :: string
  handler_filter :: "NearHandlerFilter option"

record SubqlProjectDs =
  ds_kind :: NearDatasourceKind
  startBlock :: "int option"
  handlers :: "NearHandler list"

definition isCustomDs :: "SubqlProjectDs \<Rightarrow> bool" where
  "isCustomDs ds = (ds_kind ds \<noteq> Runtime)"

section \<open>ProjectService (src/packages/node/src/indexer/project.service.ts)\<close>



section \<open>Block utilities (src/packages/node/src/subcommands/mmrMigrate.module.ts)\<close>

subsection \<open>Action decoding\<close>

text \<open>
  The wire action is \<open>Record<string, any> | string\<close>. An object is the list of its
  entries in the order of \<open>Object.keys\<close>. \<open>throw new Error(msg)\<close> is \<open>Inl (Error msg)\<close>.
\<close>

datatype wire_action = ActionString string | ActionObject "(string \<times> js_value) list"

datatype js_error = Error string

record 'tx NearAction =
  action_id :: nat
  action_type :: string
  action :: js_value
  transaction :: 'tx

text \<open>The \<open>switch\<close> of \<open>parseNearAction\<close>; the type is \<open>None\<close> when it is \<open>undefined\<close>.\<close>

definition parseNearAction :: "string option \<Rightarrow> js_value \<Rightarrow> js_error + js_value" where
  "parseNearAction type' a =
     (if type' = Some ''CreateAccount'' then Inr a
      else if type' = Some ''DeployContract'' then Inr a
      else if type' = Some ''FunctionCall'' then Inr a
      else if type' = Some ''Transfer'' then Inr a
      else if type' = Some ''Stake'' then Inr a
      else if type' = Some ''AddKey'' then Inr a
      else if type' = Some ''DeleteKey'' then Inr a
      else if type' = Some ''DeleteAccount'' then Inr a
      else Inl (Error ''Invalid type string for NearAction''))"

text \<open>
  \<open>Object.keys(action)[0]\<close> and \<open>action[type]\<close>: for an object the first key and its
  value; for a string the index \<open>"0"\<close> and the first character; \<open>undefined\<close> for both
  when there is no key. \<open>parseNearAction\<close> throws on an \<open>undefined\<close> type, so the
  returned action always carries the key as its type.
\<close>

definition first_key :: "wire_action \<Rightarrow> string option \<times> js_value" where
  "first_key w =
     (case w of
        ActionString s \<Rightarrow> (case s of [] \<Rightarrow> (None, Undefined) | c # _ \<Rightarrow> (Some ''0'', Str [c]))
      | ActionObject kvs \<Rightarrow> (case kvs of [] \<Rightarrow> (None, Undefined) | (k, v) # _ \<Rightarrow> (Some k, v)))"

definition wrapAction :: "wire_action \<Rightarrow> nat \<Rightarrow> 'tx \<Rightarrow> js_error + 'tx NearAction" where
  "wrapAction w i tx =
     (if w = ActionString ''CreateAccount'' then
        (case parseNearAction (Some ''CreateAccount'') (Obj []) of
           Inl e \<Rightarrow> Inl e
         | Inr actionValue \<Rightarrow>
             Inr \<lparr>action_id = i, action_type = ''CreateAccount'', action = actionValue,
                  transaction = tx\<rparr>)
      else
        (case first_key w of
           (type', payload) \<Rightarrow>
             (case parseNearAction type' payload of
                Inl e \<Rightarrow> Inl e
              | Inr actionValue \<Rightarrow>
                  Inr \<lparr>action_id = i, action_type = (case type' of Some t \<Rightarrow> t | None \<Rightarrow> []),
                       action = actionValue, transaction = tx\<rparr>)))"

subsection \<open>Action filters\<close>

text \<open>
  \<open>filter.type ? action.type === filter.type : true\<close>: a string is truthy when it is
  not empty.
\<close>

definition filterAction :: "'tx NearAction \<Rightarrow> NearActionFilter option \<Rightarrow> bool" where
  "filterAction a f =
     (case f of
        None \<Rightarrow> True
      | Some flt \<Rightarrow>
          (case filter_type flt of
             None \<Rightarrow> True
           | Some t \<Rightarrow> if t \<noteq> [] then action_type a = t else True))"

text \<open>The argument \<open>filter | filter[] | undefined\<close>.\<close>

datatype 'f filter_arg = NoFilter | OneFilter 'f | ManyFilters "'f list"

text \<open>
  \<open>filters.find(...)\<close> answers the first filter that passes, an object and so truthy,
  or \<open>undefined\<close>.
\<close>

definition filterActions ::
  "'tx NearAction list \<Rightarrow> NearActionFilter filter_arg \<Rightarrow> 'tx NearAction list" where
  "filterActions actions filterOrFilters =
     (case filterOrFilters of
        NoFilter \<Rightarrow> actions
      | ManyFilters [] \<Rightarrow> actions
      | ManyFilters fs \<Rightarrow>
          filter (\<lambda>a. find (\<lambda>f. filterAction a (Some f)) fs \<noteq> None) actions
      | OneFilter f \<Rightarrow>
          filter (\<lambda>a. find (\<lambda>f. filterAction a (Some f)) [f] \<noteq> None) actions)"

subsection \<open>Cron timestamp filter\<close>







section \<open>FetchService (src/packages/node/src/indexer/project.service.ts)\<close>

subsection \<open>Configuration, state and collaborators\<close>

record NodeConfig =
  batchSize :: int
  unfinalizedBlocks :: bool
  scaleBatchSize :: bool

text \<open>
  The project as the service reads it: the static datasources and
  \<open>network.dictionary\<close>. \<open>apiGenesisHash\<close> is \<open>apiService.genesisHash()\<close>, fixed when the
  API pool is initialised.
\<close>

record SubqueryProject =
  dataSources :: "SubqlProjectDs list"
  dictionary :: "string option"
  apiGenesisHash :: string

text \<open>The mutable fields of the service; the two heights are \<open>undefined\<close> until a head
  has been fetched.\<close>

record FetchService =
  latestBestHeight :: "int option"
  latestFinalizedHeight :: "int option"
  isShutdown :: bool
  batchSizeScale :: rat
  templateDynamicDatasouces :: "SubqlProjectDs list"
  dictionaryGenesisMatches :: bool
  bypassBlocks :: "int list"

record MetaData =
  lastProcessedHeight :: int
  genesisHash :: string

record Dictionary =
  batchBlocks :: "int list"
  metadata :: MetaData

text \<open>What \<open>dictionaryService.scopedDictionaryEntries\<close> did: it threw, or it answered a
  dictionary or \<open>undefined\<close>.\<close>

datatype dictionary_query = QueryThrows | QueryReturns "Dictionary option"

text \<open>
  What one pass of the loop reads from its collaborators: the dispatcher's
  \<open>latestBufferedHeight\<close> and \<open>freeSize\<close> before the dictionary query and again after
  it, the dictionary service's \<open>startHeight\<close> (\<open>undefined\<close> until \<open>init\<close> has set it), the
  number of query entries it holds for the height asked, and the outcome of the
  dictionary query.
\<close>

record scan_env =
  initBlockHeight :: int
  latestBufferedHeight :: "int option"
  freeSize :: int
  dictionaryStartHeight :: "int option"
  queryEntries :: nat
  dictionaryQuery :: dictionary_query
  latestBufferedHeightAfterQuery :: "int option"
  freeSizeAfterQuery :: int

text \<open>What one pass of the loop does: it waits (\<open>delay(1)\<close>), it discards the dictionary
  answer, or it calls \<open>blockDispatcher.enqueueBlocks(heights, latestBufferHeight)\<close>.\<close>

datatype scan_result = Delay | Discard | EnqueueBlocks "int list" "int option"

subsection \<open>Dictionary use and validation\<close>

definition useDictionary :: "SubqueryProject \<Rightarrow> FetchService \<Rightarrow> nat \<Rightarrow> bool" where
  "useDictionary project st entries =
     (dictionary project \<noteq> None \<and> dictionary project \<noteq> Some [] \<and>
      dictionaryGenesisMatches st \<and> entries \<noteq> 0)"

definition dictionaryValidation ::
  "SubqueryProject \<Rightarrow> FetchService \<Rightarrow> Dictionary option \<Rightarrow> int option \<Rightarrow> bool \<times> FetchService" where
  "dictionaryValidation project st dict startBlockHeight =
     (case dict of
        None \<Rightarrow> (False, st)
      | Some d \<Rightarrow>
          if genesisHash (metadata d) \<noteq> apiGenesisHash project then
            (False, st\<lparr>dictionaryGenesisMatches := False\<rparr>)
          else
            (case startBlockHeight of
               None \<Rightarrow> (True, st)
             | Some start \<Rightarrow>
                 if lastProcessedHeight (metadata d) < start then (False, st)
                 else (True, st)))"

subsection \<open>Modulo blocks\<close>

text \<open>\<open>handler.filter && handler.filter.modulo\<close>: a modulo of \<open>0\<close> is falsy.\<close>

definition handler_modulo :: "NearHandler \<Rightarrow> int list" where
  "handler_modulo h =
     (if handler_kind h = Block then
        (case handler_filter h of
           Some (BlockF f) \<Rightarrow>
             (case modulo f of None \<Rightarrow> [] | Some m \<Rightarrow> if m \<noteq> 0 then [m] else [])
         | _ \<Rightarrow> [])
      else [])"

definition getModulos :: "SubqueryProject \<Rightarrow> int list" where
  "getModulos project =
     concat (map (\<lambda>ds. if isCustomDs ds then [] else concat (map handler_modulo (handlers ds)))
       (dataSources project))"

text \<open>\<open>modulos.find((m) => i % m === 0)\<close> as a condition: the modulo found is truthy
  when it is not \<open>0\<close>.\<close>

definition modulo_found :: "int list \<Rightarrow> int \<Rightarrow> bool" where
  "modulo_found modulos i =
     (case find (\<lambda>m. js_rem i m = Some 0) modulos of None \<Rightarrow> False | Some m \<Rightarrow> m \<noteq> 0)"

definition getModuloBlocks :: "SubqueryProject \<Rightarrow> int \<Rightarrow> int \<Rightarrow> int list" where
  "getModuloBlocks project startHeight endHeight =
     filter (modulo_found (getModulos project)) [startHeight..endHeight - 1]"

text \<open>
  \<open>getEnqueuedModuloBlocks\<close>. Without any modulo \<open>Math.max()\<close> is \<open>-Infinity\<close>, the end
  of the range is \<open>-Infinity\<close> for a positive batch size, and the loop of
  \<open>getModuloBlocks\<close> does not run; the service calls the function only when there is a
  modulo.
\<close>

definition getEnqueuedModuloBlocks :: "NodeConfig \<Rightarrow> SubqueryProject \<Rightarrow> int \<Rightarrow> int list" where
  "getEnqueuedModuloBlocks nodeConfig project startBlockHeight =
     (case math_max (getModulos project) of
        None \<Rightarrow> []
      | Some mx \<Rightarrow>
          slice0
            (getModuloBlocks project startBlockHeight
               (batchSize nodeConfig * mx + startBlockHeight))
            (batchSize nodeConfig))"

subsection \<open>Bypass blocks\<close>

text \<open>
  Modelled from the spec: \<open>cleanedBatchBlocks\<close> is imported from @subql/node-core and is
  not part of the sources. The spec: the cleaned list is the requested list minus any
  bypass member at most the greatest requested height; a bypass member above that
  height is not in the requested list, so every bypass member is removed.
\<close>

definition cleanedBatchBlocks :: "int list \<Rightarrow> int list \<Rightarrow> int list" where
  "cleanedBatchBlocks bypass currentBlockBatch = without currentBlockBatch bypass"

text \<open>\<open>filteredBlockBatch\<close>; an array is never falsy, so only the emptiness of the
  bypass list decides the early return.\<close>

definition filteredBlockBatch :: "FetchService \<Rightarrow> int list \<Rightarrow> int list \<times> FetchService" where
  "filteredBlockBatch st currentBatchBlocks =
     (if bypassBlocks st = [] then (currentBatchBlocks, st)
      else
        (let cleanedBatch = cleanedBatchBlocks (bypassBlocks st) currentBatchBlocks;
             pollutedBlocks =
               filter (\<lambda>b. lt_math_max b (math_max currentBatchBlocks)) (bypassBlocks st)
         in (cleanedBatch, st\<lparr>bypassBlocks := without (bypassBlocks st) pollutedBlocks\<rparr>)))"

definition getLatestBufferHeight :: "int list \<Rightarrow> int list \<Rightarrow> int option" where
  "getLatestBufferHeight cleanedBatch rawBatchBlocks = math_max (cleanedBatch @ rawBatchBlocks)"

subsection \<open>One pass of the loop of \<open>fillNextBlockBuffer\<close>\<close>

definition getStartBlockHeight :: "int option \<Rightarrow> int \<Rightarrow> int" where
  "getStartBlockHeight buffered init =
     (case buffered of
        None \<Rightarrow> init
      | Some h \<Rightarrow> if h \<noteq> 0 then h + 1 else init)"

text \<open>
  \<open>Math.round(x)\<close> is \<open>\<lfloor>x + 1/2\<rfloor>\<close>, which is \<open>round\<close>. The scale is a double in the
  source and a rational here.
\<close>

definition scaledBatchSize :: "NodeConfig \<Rightarrow> FetchService \<Rightarrow> int" where
  "scaledBatchSize nodeConfig st =
     max (round (batchSizeScale st * of_int (batchSize nodeConfig)))
         (min 5 (batchSize nodeConfig * 3))"

definition nextEndBlockHeight :: "NodeConfig \<Rightarrow> FetchService \<Rightarrow> int \<Rightarrow> int \<Rightarrow> int" where
  "nextEndBlockHeight nodeConfig st startBlockHeight scaled =
     (let endBlockHeight = startBlockHeight + scaled - 1 in
      if js_gt endBlockHeight (latestFinalizedHeight st) then
        (if unfinalizedBlocks nodeConfig then
           (if js_ge endBlockHeight (latestBestHeight st)
            then (case latestBestHeight st of Some b \<Rightarrow> b | None \<Rightarrow> endBlockHeight)
            else endBlockHeight)
         else (case latestFinalizedHeight st of Some f \<Rightarrow> f | None \<Rightarrow> endBlockHeight))
      else endBlockHeight)"

text \<open>Lines 546 to 573: the dictionary passed validation.\<close>

definition enqueueDictionary ::
  "SubqueryProject \<Rightarrow> FetchService \<Rightarrow> Dictionary \<Rightarrow> int \<Rightarrow> int \<Rightarrow> scan_result \<times> FetchService" where
  "enqueueDictionary project st d startBlockHeight free =
     (let queryEndBlock = startBlockHeight + 10000;
          moduloBlocks = getModuloBlocks project startBlockHeight queryEndBlock;
          batch = sort_asc (batchBlocks d @ moduloBlocks)
      in if length batch = 0 then
           (EnqueueBlocks [] (Some (min (queryEndBlock - 1) (lastProcessedHeight (metadata d)))),
            st)
         else
           (let maxBlockSize = min (int (length batch)) free;
                enqueuingBlocks = slice0 batch maxBlockSize
            in case filteredBlockBatch st enqueuingBlocks of
                 (cleaned, st') \<Rightarrow>
                   (EnqueueBlocks cleaned (getLatestBufferHeight cleaned enqueuingBlocks), st')))"

text \<open>Lines 582 to 601: the path without the dictionary.\<close>

definition enqueueSequential ::
  "NodeConfig \<Rightarrow> SubqueryProject \<Rightarrow> FetchService \<Rightarrow> int \<Rightarrow> scan_result \<times> FetchService" where
  "enqueueSequential nodeConfig project st startBlockHeight =
     (let endHeight =
            nextEndBlockHeight nodeConfig st startBlockHeight (scaledBatchSize nodeConfig st);
          allHandlers = concat (map handlers (dataSources project));
          enqueuingBlocks =
            (if allHandlers \<noteq> [] \<and> length (getModulos project) = length allHandlers
             then getEnqueuedModuloBlocks nodeConfig project startBlockHeight
             else lodash_range startBlockHeight (endHeight + 1))
      in case filteredBlockBatch st enqueuingBlocks of
           (cleaned, st') \<Rightarrow>
             (EnqueueBlocks cleaned (getLatestBufferHeight cleaned enqueuingBlocks), st'))"

text \<open>
  The body of \<open>while (!this.isShutdown)\<close>. A dictionary query that throws is caught and
  the pass goes on without the dictionary, as it does when validation fails.
\<close>

definition fillNextBlockBuffer_pass ::
  "NodeConfig \<Rightarrow> SubqueryProject \<Rightarrow> scan_env \<Rightarrow> FetchService \<Rightarrow> scan_result \<times> FetchService" where
  "fillNextBlockBuffer_pass nodeConfig project env st =
     (let startBlockHeight = getStartBlockHeight (latestBufferedHeight env) (initBlockHeight env);
          scaled = scaledBatchSize nodeConfig st;
          latestHeight =
            (if unfinalizedBlocks nodeConfig then latestBestHeight st
             else latestFinalizedHeight st)
      in if freeSize env < scaled \<or> js_gt startBlockHeight latestHeight then (Delay, st)
         else if useDictionary project st (queryEntries env)
                 \<and> js_ge startBlockHeight (dictionaryStartHeight env) then
           (case dictionaryQuery env of
              QueryThrows \<Rightarrow> enqueueSequential nodeConfig project st startBlockHeight
            | QueryReturns dict \<Rightarrow>
                if startBlockHeight \<noteq>
                   getStartBlockHeight (latestBufferedHeightAfterQuery env) (initBlockHeight env)
                then (Discard, st)
                else
                  (case dict of
                     None \<Rightarrow> enqueueSequential nodeConfig project st startBlockHeight
                   | Some d \<Rightarrow>
                       (case dictionaryValidation project st (Some d) (Some startBlockHeight) of
                          (ok, st') \<Rightarrow>
                            if ok then
                              enqueueDictionary project st' d startBlockHeight
                                (freeSizeAfterQuery env)
                            else enqueueSequential nodeConfig project st' startBlockHeight)))
         else enqueueSequential nodeConfig project st startBlockHeight)"

section \<open>WorkerService (src/packages/node/src/indexer/worker/worker.service.ts)\<close>

text \<open>
  \<open>fetchedBlocks\<close> is a \<open>Record\<close> keyed by height. A key can be absent, or hold
  \<open>undefined\<close>, \<open>null\<close> (the block is unavailable in the chain) or a block.
\<close>

datatype 'b fetched = FetchedUndefined | FetchedNull | FetchedBlock 'b

text \<open>
  Errors: the two the worker throws itself, with the height of their message, and the
  errors \<open>'e\<close> of its collaborators. \<open>BlockUnavailableError\<close> is a class private to the
  module, so no collaborator can throw it.
\<close>

datatype 'e worker_error =
    BlockUnavailableError int
  | BlockNotFetched int
  | External 'e

datatype 'e worker_log =
    LogDebugMemoryLockWait
  | LogErrorFailedToFetch int "'e worker_error"
  | LogWarn "'e worker_error"
  | LogErrorFailedToIndex int "'e worker_error"

record ('b, 'e) WorkerService =
  fetchedBlocks :: "int \<rightharpoonup> 'b fetched"
  isIndexing :: bool
  worker_log :: "'e worker_log list"

record ProcessBlockResponse =
  blockHash :: "string option"
  dynamicDsCreated :: bool
  reindexBlockHeight :: "int option"

text \<open>\<open>this.fetchedBlocks[height]\<close>: \<open>undefined\<close> for an absent key.\<close>

definition fetchedBlocks_at :: "('b, 'e) WorkerService \<Rightarrow> int \<Rightarrow> 'b fetched" where
  "fetchedBlocks_at w height =
     (case fetchedBlocks w height of None \<Rightarrow> FetchedUndefined | Some v \<Rightarrow> v)"

definition truthy :: "'b fetched \<Rightarrow> bool" where
  "truthy v = (case v of FetchedBlock _ \<Rightarrow> True | _ \<Rightarrow> False)"

subsection \<open>\<open>fetchBlock\<close>\<close>

text \<open>
  The task given to the queue. \<open>locked\<close> is \<open>memoryLock.isLocked()\<close>; \<open>fetchBlocks\<close> is
  \<open>apiService.fetchBlocks\<close>, which answers a list of blocks or fails.
  \<open>const [block] = ...\<close> takes the first element, \<open>undefined\<close> if there is none.
\<close>

definition fetchBlock_task ::
  "bool \<Rightarrow> (int list \<Rightarrow> 'e + 'b fetched list) \<Rightarrow> int \<Rightarrow> ('b, 'e) WorkerService
     \<Rightarrow> ('e worker_error + unit option) \<times> ('b, 'e) WorkerService" where
  "fetchBlock_task locked fetchBlocks height w =
     (if \<not> truthy (fetchedBlocks_at w height) then
        (let w1 = (if locked then w\<lparr>worker_log := worker_log w @ [LogDebugMemoryLockWait]\<rparr>
                   else w)
         in case fetchBlocks [height] of
              Inl e \<Rightarrow> (Inl (External e), w1)
            | Inr blocks \<Rightarrow>
                (let block = (case blocks of [] \<Rightarrow> FetchedUndefined | b # _ \<Rightarrow> b)
                 in (Inr None, w1\<lparr>fetchedBlocks := (fetchedBlocks w1)(height \<mapsto> block)\<rparr>)))
      else (Inr None, w))"

text \<open>
  \<open>queue.put(task)\<close> of the \<open>AutoQueue\<close> of @subql/node-core: it rejects by itself
  (\<open>putRejects = Some e\<close>, a full queue for one) or it runs the task and settles as the
  task does.
\<close>

definition queue_put ::
  "'e option \<Rightarrow> (('b, 'e) WorkerService \<Rightarrow> ('e worker_error + unit option) \<times> ('b, 'e) WorkerService)
     \<Rightarrow> ('b, 'e) WorkerService \<Rightarrow> ('e worker_error + unit option) \<times> ('b, 'e) WorkerService" where
  "queue_put putRejects task w =
     (case putRejects of Some e \<Rightarrow> (Inl (External e), w) | None \<Rightarrow> task w)"

text \<open>
  \<open>fetchBlock\<close>: the answer \<open>Inr None\<close> is a promise resolved to \<open>undefined\<close>, \<open>Inl e\<close>
  a promise rejected with \<open>e\<close>. The \<open>catch\<close> logs and falls off the end of the function.
\<close>

definition fetchBlock ::
  "'e option \<Rightarrow> bool \<Rightarrow> (int list \<Rightarrow> 'e + 'b fetched list) \<Rightarrow> int \<Rightarrow> ('b, 'e) WorkerService
     \<Rightarrow> ('e worker_error + unit option) \<times> ('b, 'e) WorkerService" where
  "fetchBlock putRejects locked fetchBlocks height w =
     (case queue_put putRejects (fetchBlock_task locked fetchBlocks height) w of
        (Inl e, w') \<Rightarrow>
          (Inr None, w'\<lparr>worker_log := worker_log w' @ [LogErrorFailedToFetch height e]\<rparr>)
      | (Inr r, w') \<Rightarrow> (Inr r, w'))"

subsection \<open>\<open>processBlock\<close>\<close>

text \<open>
  The \<open>try\<close> block. \<open>allDataSources\<close> is the outcome of
  \<open>projectService.getAllDataSources(height)\<close>, awaited before \<open>indexBlock\<close> is called;
  \<open>indexBlock\<close> is \<open>indexerManager.indexBlock\<close>.
\<close>

definition processBlock_try ::
  "('e + 'ds) \<Rightarrow> ('b \<Rightarrow> 'ds \<Rightarrow> 'e + ProcessBlockResponse) \<Rightarrow> int \<Rightarrow> ('b, 'e) WorkerService
     \<Rightarrow> ('e worker_error + ProcessBlockResponse) \<times> ('b, 'e) WorkerService" where
  "processBlock_try allDataSources indexBlock height w =
     (let w1 = w\<lparr>isIndexing := True\<rparr> in
      case fetchedBlocks_at w1 height of
        FetchedNull \<Rightarrow> (Inl (BlockUnavailableError height), w1)
      | FetchedUndefined \<Rightarrow> (Inl (BlockNotFetched height), w1)
      | FetchedBlock block \<Rightarrow>
          (let w2 = w1\<lparr>fetchedBlocks := (fetchedBlocks w1)(height := None)\<rparr> in
           case allDataSources of
             Inl e \<Rightarrow> (Inl (External e), w2)
           | Inr dss \<Rightarrow>
               (case indexBlock block dss of
                  Inl e \<Rightarrow> (Inl (External e), w2)
                | Inr response \<Rightarrow> (Inr response, w2))))"

text \<open>\<open>processBlock\<close>: the \<open>try\<close> block, the \<open>catch\<close> and the \<open>finally\<close>.\<close>

definition processBlock ::
  "('e + 'ds) \<Rightarrow> ('b \<Rightarrow> 'ds \<Rightarrow> 'e + ProcessBlockResponse) \<Rightarrow> int \<Rightarrow> ('b, 'e) WorkerService
     \<Rightarrow> ('e worker_error + ProcessBlockResponse) \<times> ('b, 'e) WorkerService" where
  "processBlock allDataSources indexBlock height w =
     (case processBlock_try allDataSources indexBlock height w of
        (Inr response, w') \<Rightarrow> (Inr response, w'\<lparr>isIndexing := False\<rparr>)
      | (Inl e, w') \<Rightarrow>
          (case e of
             BlockUnavailableError h \<Rightarrow>
               (Inr \<lparr>blockHash = None, dynamicDsCreated = False, reindexBlockHeight = None\<rparr>,
                w'\<lparr>worker_log := worker_log w' @ [LogWarn e], isIndexing := False\<rparr>)
           | _ \<Rightarrow>
               (Inl e,
                w'\<lparr>worker_log := worker_log w' @ [LogErrorFailedToIndex height e],
                   isIndexing := False\<rparr>)))"

section \<open>The calls that change a FetchService\<close>

text \<open>
  The methods of the service that assign one of its fields, each with what it reads from
  outside: the head fetched from the chain (\<open>None\<close> when the request failed and the
  error was logged), the scale answered by \<open>checkMemoryUsage\<close>, the dynamic
  datasources, the dictionary handed to validation, the batch handed to
  \<open>filteredBlockBatch\<close>, the environment of a pass of the loop, and for \<open>init\<close> the
  bypass blocks of the manifest (after \<open>transformBypassBlocks\<close>) and the start height.
  \<open>resetForNewDs\<close> and \<open>resetForIncorrectBestBlock\<close> change the service through
  \<open>syncDynamicDatascourcesFromMeta\<close> only; \<open>updateDictionary\<close> and \<open>flushQueue\<close> act on
  the dictionary service and the dispatcher.
\<close>

definition getFinalizedBlockHead :: "int option \<Rightarrow> FetchService \<Rightarrow> FetchService" where
  "getFinalizedBlockHead header st =
     (case header of
        None \<Rightarrow> st
      | Some h \<Rightarrow>
          if latestFinalizedHeight st \<noteq> Some h then st\<lparr>latestFinalizedHeight := Some h\<rparr>
          else st)"

definition getBestBlockHead :: "int option \<Rightarrow> FetchService \<Rightarrow> FetchService" where
  "getBestBlockHead header st =
     (case header of
        None \<Rightarrow> st
      | Some h \<Rightarrow>
          if latestBestHeight st \<noteq> Some h then st\<lparr>latestBestHeight := Some h\<rparr> else st)"

definition checkBatchScale :: "NodeConfig \<Rightarrow> rat \<Rightarrow> FetchService \<Rightarrow> FetchService" where
  "checkBatchScale nodeConfig scale st =
     (if scaleBatchSize nodeConfig then
        (if batchSizeScale st \<noteq> scale then st\<lparr>batchSizeScale := scale\<rparr> else st)
      else st)"

definition syncDynamicDatascourcesFromMeta ::
  "SubqlProjectDs list \<Rightarrow> FetchService \<Rightarrow> FetchService" where
  "syncDynamicDatascourcesFromMeta dynamicDs st = st\<lparr>templateDynamicDatasouces := dynamicDs\<rparr>"

definition onApplicationShutdown :: "FetchService \<Rightarrow> FetchService" where
  "onApplicationShutdown st = st\<lparr>isShutdown := True\<rparr>"

definition init ::
  "SubqueryProject \<Rightarrow> int list option \<Rightarrow> int \<Rightarrow> SubqlProjectDs list \<Rightarrow> Dictionary option
     \<Rightarrow> int option \<Rightarrow> int option \<Rightarrow> FetchService \<Rightarrow> FetchService" where
  "init project networkBypassBlocks startHeight dynamicDs meta finalizedHead bestHead st =
     (let st1 = (case networkBypassBlocks of
                   None \<Rightarrow> st
                 | Some bs \<Rightarrow> st\<lparr>bypassBlocks := filter (\<lambda>blk. blk \<ge> startHeight) bs\<rparr>);
          st2 = syncDynamicDatascourcesFromMeta dynamicDs st1;
          st3 = snd (dictionaryValidation project st2 meta None);
          st4 = getFinalizedBlockHead finalizedHead st3
      in getBestBlockHead bestHead st4)"

datatype fetch_call =
    OnApplicationShutdown
  | CheckBatchScale rat
  | GetFinalizedBlockHead "int option"
  | GetBestBlockHead "int option"
  | SyncDynamicDatasources "SubqlProjectDs list"
  | DictionaryValidation "Dictionary option" "int option"
  | FilteredBlockBatch "int list"
  | FillNextBlockBufferPass scan_env
  | Init "int list option" int "SubqlProjectDs list" "Dictionary option" "int option" "int option"

fun fetch_call_step ::
  "NodeConfig \<Rightarrow> SubqueryProject \<Rightarrow> FetchService \<Rightarrow> fetch_call \<Rightarrow> FetchService" where
  "fetch_call_step nodeConfig project st OnApplicationShutdown = onApplicationShutdown st"
| "fetch_call_step nodeConfig project st (CheckBatchScale scale) =
     checkBatchScale nodeConfig scale st"
| "fetch_call_step nodeConfig project st (GetFinalizedBlockHead h) = getFinalizedBlockHead h st"
| "fetch_call_step nodeConfig project st (GetBestBlockHead h) = getBestBlockHead h st"
| "fetch_call_step nodeConfig project st (SyncDynamicDatasources dss) =
     syncDynamicDatascourcesFromMeta dss st"
| "fetch_call_step nodeConfig project st (DictionaryValidation dict start) =
     snd (dictionaryValidation project st dict start)"
| "fetch_call_step nodeConfig project st (FilteredBlockBatch batch) =
     snd (filteredBlockBatch st batch)"
| "fetch_call_step nodeConfig project st (FillNextBlockBufferPass env) =
     snd (fillNextBlockBuffer_pass nodeConfig project env st)"
| "fetch_call_step nodeConfig project st (Init bs startHeight dss meta fin best) =
     init project bs startHeight dss meta fin best st"

text \<open>The service after a sequence of calls, in order.\<close>

definition fetch_calls ::
  "NodeConfig \<Rightarrow> SubqueryProject \<Rightarrow> FetchService \<Rightarrow> fetch_call list \<Rightarrow> FetchService" where
  "fetch_calls nodeConfig project st calls = foldl (fetch_call_step nodeConfig project) st calls"

section \<open>Notions used to state the properties\<close>

text \<open>The cases of the \<open>switch\<close> of \<open>parseNearAction\<close>.\<close>

definition action_types :: "string list" where
  "action_types = [''CreateAccount'', ''DeployContract'', ''FunctionCall'', ''Transfer'',
     ''Stake'', ''AddKey'', ''DeleteKey'', ''DeleteAccount'']"

text \<open>The heights a pass hands to the dispatcher; none when it does not enqueue.\<close>

definition enqueued_heights :: "scan_result \<Rightarrow> int list" where
  "enqueued_heights r = (case r of EnqueueBlocks hs _ \<Rightarrow> hs | _ \<Rightarrow> [])"


text \<open>
  The raw batch of a pass, before the bypass blocks are taken out: the value of
  \<open>enqueuingBlocks\<close> at lines 588 and 595 on the path without the dictionary, and at
  line 565 on the dictionary path.
\<close>

definition sequential_enqueuingBlocks ::
  "NodeConfig \<Rightarrow> SubqueryProject \<Rightarrow> FetchService \<Rightarrow> int \<Rightarrow> int list" where
  "sequential_enqueuingBlocks nodeConfig project st startBlockHeight =
     (let endHeight =
            nextEndBlockHeight nodeConfig st startBlockHeight (scaledBatchSize nodeConfig st);
          allHandlers = concat (map handlers (dataSources project))
      in if allHandlers \<noteq> [] \<and> length (getModulos project) = length allHandlers
         then getEnqueuedModuloBlocks nodeConfig project startBlockHeight
         else lodash_range startBlockHeight (endHeight + 1))"

definition dictionary_enqueuingBlocks ::
  "SubqueryProject \<Rightarrow> Dictionary \<Rightarrow> int \<Rightarrow> int \<Rightarrow> int list" where
  "dictionary_enqueuingBlocks project d startBlockHeight free =
     (let batch = sort_asc (batchBlocks d
                    @ getModuloBlocks project startBlockHeight (startBlockHeight + 10000))
      in slice0 batch (min (int (length batch)) free))"

text \<open>
  The raw batch of a whole pass, along the branches of the loop body: none when the pass
  waits or discards the dictionary answer, the raw batch of the path taken otherwise
  (empty when the dictionary path finds no block).
\<close>

definition enqueuingBlocks_of_pass ::
  "NodeConfig \<Rightarrow> SubqueryProject \<Rightarrow> scan_env \<Rightarrow> FetchService \<Rightarrow> int list option" where
  "enqueuingBlocks_of_pass nodeConfig project env st =
     (let startBlockHeight = getStartBlockHeight (latestBufferedHeight env) (initBlockHeight env);
          scaled = scaledBatchSize nodeConfig st;
          latestHeight =
            (if unfinalizedBlocks nodeConfig then latestBestHeight st
             else latestFinalizedHeight st)
      in if freeSize env < scaled \<or> js_gt startBlockHeight latestHeight then None
         else if useDictionary project st (queryEntries env)
                 \<and> js_ge startBlockHeight (dictionaryStartHeight env) then
           (case dictionaryQuery env of
              QueryThrows \<Rightarrow>
                Some (sequential_enqueuingBlocks nodeConfig project st startBlockHeight)
            | QueryReturns dict \<Rightarrow>
                if startBlockHeight \<noteq>
                   getStartBlockHeight (latestBufferedHeightAfterQuery env) (initBlockHeight env)
                then None
                else
                  (case dict of
                     None \<Rightarrow>
                       Some (sequential_enqueuingBlocks nodeConfig project st startBlockHeight)
                   | Some d \<Rightarrow>
                       (case dictionaryValidation project st (Some d) (Some startBlockHeight) of
                          (ok, st') \<Rightarrow>
                            if ok then
                              Some (dictionary_enqueuingBlocks project d startBlockHeight
                                      (freeSizeAfterQuery env))
                            else
                              Some (sequential_enqueuingBlocks nodeConfig project st'
                                      startBlockHeight))))
         else Some (sequential_enqueuingBlocks nodeConfig project st startBlockHeight))"



subsection \<open>Example projects and states\<close>

text \<open>A project whose only handler is a block handler with modulo 100, starting at
  block 1000.\<close>

definition modulo_project :: SubqueryProject where
  "modulo_project =
     \<lparr>dataSources =
        [\<lparr>ds_kind = Runtime, startBlock = Some 1000,
          handlers =
            [\<lparr>handler_kind = Block, handler_name = ''handleBlock'',
              handler_filter = Some (BlockF \<lparr>modulo = Some 100, timestamp = None\<rparr>)\<rparr>]\<rparr>],
      dictionary = None, apiGenesisHash = ''genesis''\<rparr>"

text \<open>A project with a dictionary, a block handler with modulo 5000 and an action
  handler, starting at block 5000.\<close>

definition dictionary_project :: SubqueryProject where
  "dictionary_project =
     \<lparr>dataSources =
        [\<lparr>ds_kind = Runtime, startBlock = Some 5000,
          handlers =
            [\<lparr>handler_kind = Block, handler_name = ''handleBlock'',
              handler_filter = Some (BlockF \<lparr>modulo = Some 5000, timestamp = None\<rparr>)\<rparr>,
             \<lparr>handler_kind = Action, handler_name = ''handleAction'',
              handler_filter = Some (ActionF \<lparr>filter_type = Some ''FunctionCall''\<rparr>)\<rparr>]\<rparr>],
      dictionary = Some ''https://dictionary.example'', apiGenesisHash = ''genesis''\<rparr>"

text \<open>A service whose finalized head is at \<open>fin\<close>, with batch scale 1 and the bypass
  list \<open>bypass\<close>.\<close>

definition service_at :: "int \<Rightarrow> int list \<Rightarrow> FetchService" where
  "service_at fin bypass =
     \<lparr>latestBestHeight = Some fin, latestFinalizedHeight = Some fin, isShutdown = False,
      batchSizeScale = 1, templateDynamicDatasouces = [], dictionaryGenesisMatches = True,
      bypassBlocks = bypass\<rparr>"

text \<open>The first pass from block \<open>start\<close> with \<open>free\<close> free places in the dispatcher, a
  dictionary that holds \<open>entries\<close> query entries and answers \<open>answer\<close>.\<close>

definition first_pass_env :: "int \<Rightarrow> int \<Rightarrow> nat \<Rightarrow> dictionary_query \<Rightarrow> scan_env" where
  "first_pass_env start free entries answer =
     \<lparr>initBlockHeight = start, latestBufferedHeight = None, freeSize = free,
      dictionaryStartHeight = Some 0, queryEntries = entries, dictionaryQuery = answer,
      latestBufferedHeightAfterQuery = None, freeSizeAfterQuery = free\<rparr>"

definition batch_config :: "int \<Rightarrow> NodeConfig" where
  "batch_config b = \<lparr>batchSize = b, unfinalizedBlocks = False, scaleBatchSize = False\<rparr>"

text \<open>A dictionary answer with the given blocks, processed up to block 20000.\<close>

definition dictionary_answer :: "int list \<Rightarrow> string \<Rightarrow> Dictionary" where
  "dictionary_answer blocks genesis =
     \<lparr>batchBlocks = blocks, metadata = \<lparr>lastProcessedHeight = 20000, genesisHash = genesis\<rparr>\<rparr>"

text \<open>A worker that holds \<open>null\<close> for block 42 and a block for 43.\<close>

definition example_worker :: "(string, string) WorkerService" where
  "example_worker =
     \<lparr>fetchedBlocks = [42 \<mapsto> FetchedNull, 43 \<mapsto> FetchedBlock ''block43''],
      isIndexing = False, worker_log = []\<rparr>"

section \<open>Auxiliary facts\<close>

subsection \<open>Modulo arithmetic\<close>

lemma js_rem_zero_iff: "m \<noteq> 0 \<Longrightarrow> js_rem i m = Some 0 \<longleftrightarrow> m dvd i"
proof -
  assume m: "m \<noteq> 0"
  have "\<bar>i\<bar> mod \<bar>m\<bar> = 0 \<longleftrightarrow> m dvd i"
    by (simp add: dvd_eq_mod_eq_0 [symmetric])
  moreover have "sgn i * (\<bar>i\<bar> mod \<bar>m\<bar>) = 0 \<longleftrightarrow> i = 0 \<or> \<bar>i\<bar> mod \<bar>m\<bar> = 0"
    by (simp add: sgn_if)
  ultimately show ?thesis using m by (auto simp: js_rem_def)
qed

lemma modulo_found_single: "m \<noteq> 0 \<Longrightarrow> modulo_found [m] i \<longleftrightarrow> m dvd i"
  by (simp add: modulo_found_def js_rem_zero_iff)

lemma no_multiple_between:
  fixes m c i :: int
  assumes "0 < m" "m * c < i" "i < m * c + m"
  shows "\<not> m dvd i"
proof
  assume "m dvd i"
  then obtain k where k: "i = m * k" by (auto simp: dvd_def)
  from assms(2) k assms(1) have "c < k" by (simp add: mult_less_cancel_left_pos)
  moreover from assms(3) k have "m * k < m * (c + 1)" by (simp add: algebra_simps)
  with assms(1) have "k < c + 1" by (simp add: mult_less_cancel_left_pos)
  ultimately show False by simp
qed

lemma filter_dvd_chunk:
  fixes m c :: int
  assumes "0 < m"
  shows "filter (\<lambda>i. m dvd i) [m * c..m * c + m - 1] = [m * c]"
proof -
  have "[m * c..m * c + m - 1] = m * c # [m * c + 1..m * c + m - 1]"
    using assms by (simp add: upto_rec1)
  moreover have "filter (\<lambda>i. m dvd i) [m * c + 1..m * c + m - 1] = []"
  proof -
    have "\<not> m dvd x" if "x \<in> set [m * c + 1..m * c + m - 1]" for x
      using that assms by (intro no_multiple_between [of m c]) auto
    then show ?thesis by (simp only: filter_empty_conv) blast
  qed
  ultimately show ?thesis by simp
qed

lemma filter_dvd_upto:
  fixes m a :: int
  assumes "0 < m"
  shows "filter (\<lambda>i. m dvd i) [m * a..m * a + m * int b - 1] =
         map (\<lambda>k. m * (a + int k)) [0..<b]"
proof (induction b)
  case 0
  then show ?case by simp
next
  case (Suc b)
  have le: "m * a \<le> m * a + m * int b" using assms by simp
  have "[m * a..m * a + m * int (Suc b) - 1] =
        [m * a..m * a + m * int b - 1] @ [m * (a + int b)..m * (a + int b) + m - 1]"
    using assms upto_split1 [of "m * a" "m * a + m * int b" "m * a + m * int (Suc b) - 1"] le
    by (simp add: algebra_simps)
  then show ?case using Suc filter_dvd_chunk [OF assms, of "a + int b"] by simp
qed

lemma getModuloBlocks_single:
  assumes "getModulos project = [m]" "0 < m"
  shows "getModuloBlocks project (m * a) (m * a + m * int b) =
         map (\<lambda>k. m * (a + int k)) [0..<b]"
proof -
  have "modulo_found [m] = (\<lambda>i. m dvd i)"
    using assms(2) by (simp add: fun_eq_iff modulo_found_single)
  then show ?thesis
    using filter_dvd_upto [OF assms(2), of a b] by (simp add: getModuloBlocks_def assms(1))
qed

lemma getEnqueuedModuloBlocks_single:
  assumes "getModulos project = [m]" "0 < m" "0 \<le> batchSize nodeConfig"
  shows "getEnqueuedModuloBlocks nodeConfig project (m * a) =
         map (\<lambda>k. m * (a + int k)) [0..<nat (batchSize nodeConfig)]"
proof -
  have eq: "batchSize nodeConfig * m + m * a = m * a + m * int (nat (batchSize nodeConfig))"
    using assms(3) by (simp add: algebra_simps)
  have "getEnqueuedModuloBlocks nodeConfig project (m * a) =
        slice0 (getModuloBlocks project (m * a) (m * a + m * int (nat (batchSize nodeConfig))))
          (batchSize nodeConfig)"
    by (simp add: getEnqueuedModuloBlocks_def assms(1) eq)
  also have "\<dots> = slice0 (map (\<lambda>k. m * (a + int k)) [0..<nat (batchSize nodeConfig)])
          (batchSize nodeConfig)"
    by (simp only: getModuloBlocks_single [OF assms(1,2)])
  also have "\<dots> = map (\<lambda>k. m * (a + int k)) [0..<nat (batchSize nodeConfig)]"
    using assms(3) by (simp add: slice0_def)
  finally show ?thesis .
qed


lemma Max_multiples:
  fixes m a :: int
  assumes "0 < m" "0 < n"
  shows "Max (set (map (\<lambda>k. m * (a + int k)) [0..<n])) = m * (a + int (n - 1))"
proof (rule Max_eqI)
  show "finite (set (map (\<lambda>k. m * (a + int k)) [0..<n]))" by simp
  show "y \<le> m * (a + int (n - 1))" if "y \<in> set (map (\<lambda>k. m * (a + int k)) [0..<n])" for y
  proof -
    from that obtain k where "k < n" "y = m * (a + int k)" by auto
    then show ?thesis using assms(1) by (simp add: mult_le_cancel_left_pos)
  qed
  show "m * (a + int (n - 1)) \<in> set (map (\<lambda>k. m * (a + int k)) [0..<n])"
    using assms(2) by (auto simp: image_iff intro!: bexI [of _ "n - 1"])
qed

subsection \<open>The latest buffer height and the bypass list\<close>

lemma math_max_Max: "xs \<noteq> [] \<Longrightarrow> math_max xs = Some (Max (set xs))"
proof (induction xs)
  case Nil
  then show ?case by simp
next
  case (Cons x xs)
  then show ?case by (cases xs) (auto simp: max.commute)
qed

lemma getLatestBufferHeight_raw:
  assumes "raw \<noteq> []" "set cleaned \<subseteq> set raw"
  shows "getLatestBufferHeight cleaned raw = Some (Max (set raw))"
proof -
  have s: "set cleaned \<union> set raw = set raw" using assms(2) by auto
  have "cleaned @ raw \<noteq> []" using assms(1) by simp
  then have "math_max (cleaned @ raw) = Some (Max (set (cleaned @ raw)))"
    by (rule math_max_Max)
  then show ?thesis by (simp add: getLatestBufferHeight_def s)
qed

lemma filteredBlockBatch_cleaned:
  "fst (filteredBlockBatch st raw) = cleanedBatchBlocks (bypassBlocks st) raw"
  by (simp add: filteredBlockBatch_def Let_def cleanedBatchBlocks_def without_def)

lemma cleanedBatchBlocks_disjoint: "set (cleanedBatchBlocks bypass raw) \<inter> set bypass = {}"
  by (auto simp: cleanedBatchBlocks_def without_def)

lemma cleanedBatchBlocks_subset: "set (cleanedBatchBlocks bypass raw) \<subseteq> set raw"
  by (auto simp: cleanedBatchBlocks_def without_def)

lemma dictionaryValidation_bypassBlocks:
  "bypassBlocks (snd (dictionaryValidation p st d s)) = bypassBlocks st"
  by (simp add: dictionaryValidation_def split: option.splits)

subsection \<open>The paths of a pass\<close>

lemma pass_without_dictionary:
  assumes "\<not> useDictionary project st (queryEntries env)"
    and "\<not> freeSize env < scaledBatchSize nodeConfig st"
    and "\<not> js_gt (getStartBlockHeight (latestBufferedHeight env) (initBlockHeight env))
            (if unfinalizedBlocks nodeConfig then latestBestHeight st
             else latestFinalizedHeight st)"
  shows "fillNextBlockBuffer_pass nodeConfig project env st =
         enqueueSequential nodeConfig project st
           (getStartBlockHeight (latestBufferedHeight env) (initBlockHeight env))"
  using assms by (simp add: fillNextBlockBuffer_pass_def Let_def)

lemma enqueueSequential_modulo_only:
  assumes "concat (map handlers (dataSources project)) \<noteq> []"
    and "length (getModulos project) = length (concat (map handlers (dataSources project)))"
    and "bypassBlocks st = []"
  shows "enqueueSequential nodeConfig project st start =
         (EnqueueBlocks (getEnqueuedModuloBlocks nodeConfig project start)
            (getLatestBufferHeight (getEnqueuedModuloBlocks nodeConfig project start)
               (getEnqueuedModuloBlocks nodeConfig project start)), st)"
  using assms by (simp add: enqueueSequential_def filteredBlockBatch_def Let_def)

lemma enqueueSequential_heights:
  "\<exists>raw. fst (enqueueSequential c p st s) =
     EnqueueBlocks (cleanedBatchBlocks (bypassBlocks st) raw)
       (getLatestBufferHeight (cleanedBatchBlocks (bypassBlocks st) raw) raw)"
  by (simp add: enqueueSequential_def Let_def split: prod.splits)
     (metis filteredBlockBatch_cleaned fst_conv)

lemma enqueueDictionary_heights:
  "enqueued_heights (fst (enqueueDictionary p st d s f)) =
     cleanedBatchBlocks (bypassBlocks st)
       (slice0 (sort_asc (batchBlocks d @ getModuloBlocks p s (s + 10000)))
          (min (int (length (sort_asc (batchBlocks d @ getModuloBlocks p s (s + 10000))))) f))"
proof (cases "sort_asc (batchBlocks d @ getModuloBlocks p s (s + 10000)) = []")
  case True
  then show ?thesis
    by (simp add: enqueueDictionary_def Let_def enqueued_heights_def slice0_def
        cleanedBatchBlocks_def without_def)
next
  case False
  then show ?thesis
    using filteredBlockBatch_cleaned
    by (simp add: enqueueDictionary_def Let_def enqueued_heights_def split: prod.splits)
       (metis fst_conv)
qed



lemma pass_enqueued_disjoint:
  assumes "fst (fillNextBlockBuffer_pass c p env st) = EnqueueBlocks cleaned latest"
  shows "set cleaned \<inter> set (bypassBlocks st) = {}"
proof -
  define P where "P r \<longleftrightarrow>
    (\<forall>cleaned latest. fst r = EnqueueBlocks cleaned latest
       \<longrightarrow> set cleaned \<inter> set (bypassBlocks st) = {})" for r :: "scan_result \<times> FetchService"
  have seq: "P (enqueueSequential c p st0 s)"
    if "bypassBlocks st0 = bypassBlocks st" for st0 s
    using that enqueueSequential_heights [of c p st0 s]
    unfolding P_def by (auto simp: cleanedBatchBlocks_def without_def)
  have dict: "P (enqueueDictionary p st0 d s f)"
    if "bypassBlocks st0 = bypassBlocks st" for st0 d s f
    using that enqueueDictionary_heights [of p st0 d s f]
    unfolding P_def by (auto simp: enqueued_heights_def cleanedBatchBlocks_def without_def)
  have triv: "P (Delay, st)" "P (Discard, st)"
    unfolding P_def by simp_all
  have val: "bypassBlocks st' = bypassBlocks st"
    if "dictionaryValidation p st d s = (ok, st')" for d s ok st'
    using that dictionaryValidation_bypassBlocks [of p st d s] by simp
  have "P (fillNextBlockBuffer_pass c p env st)"
    unfolding fillNextBlockBuffer_pass_def Let_def
    by (auto split: dictionary_query.splits option.splits prod.splits
        intro!: seq dict triv intro: val)
  then show ?thesis using assms unfolding P_def by blast
qed

lemma enqueueSequential_raw:
  "fst (enqueueSequential c p st s) =
     EnqueueBlocks (cleanedBatchBlocks (bypassBlocks st) (sequential_enqueuingBlocks c p st s))
       (getLatestBufferHeight
          (cleanedBatchBlocks (bypassBlocks st) (sequential_enqueuingBlocks c p st s))
          (sequential_enqueuingBlocks c p st s))"
proof -
  have "fst (enqueueSequential c p st s) =
        EnqueueBlocks (fst (filteredBlockBatch st (sequential_enqueuingBlocks c p st s)))
          (getLatestBufferHeight
             (fst (filteredBlockBatch st (sequential_enqueuingBlocks c p st s)))
             (sequential_enqueuingBlocks c p st s))"
    by (simp add: enqueueSequential_def sequential_enqueuingBlocks_def Let_def
        split: prod.splits)
  then show ?thesis by (simp only: filteredBlockBatch_cleaned)
qed

lemma enqueueDictionary_raw:
  assumes "dictionary_enqueuingBlocks p d s f \<noteq> []"
  shows "fst (enqueueDictionary p st d s f) =
     EnqueueBlocks (cleanedBatchBlocks (bypassBlocks st) (dictionary_enqueuingBlocks p d s f))
       (getLatestBufferHeight
          (cleanedBatchBlocks (bypassBlocks st) (dictionary_enqueuingBlocks p d s f))
          (dictionary_enqueuingBlocks p d s f))"
proof -
  have ne: "sort_asc (batchBlocks d @ getModuloBlocks p s (s + 10000)) \<noteq> []"
  proof
    assume "sort_asc (batchBlocks d @ getModuloBlocks p s (s + 10000)) = []"
    then have "dictionary_enqueuingBlocks p d s f = []"
      by (simp add: dictionary_enqueuingBlocks_def Let_def slice0_def)
    with assms show False by simp
  qed
  then have "fst (enqueueDictionary p st d s f) =
        EnqueueBlocks (fst (filteredBlockBatch st (dictionary_enqueuingBlocks p d s f)))
          (getLatestBufferHeight
             (fst (filteredBlockBatch st (dictionary_enqueuingBlocks p d s f)))
             (dictionary_enqueuingBlocks p d s f))"
    by (simp add: enqueueDictionary_def dictionary_enqueuingBlocks_def Let_def
        split: prod.splits)
  then show ?thesis by (simp only: filteredBlockBatch_cleaned)
qed

lemma pass_enqueues_raw:
  assumes "enqueuingBlocks_of_pass c p env st = Some raw" and "raw \<noteq> []"
  shows "fst (fillNextBlockBuffer_pass c p env st) =
     EnqueueBlocks (cleanedBatchBlocks (bypassBlocks st) raw)
       (getLatestBufferHeight (cleanedBatchBlocks (bypassBlocks st) raw) raw)"
proof -
  define R where "R r b \<longleftrightarrow>
    (\<forall>raw. b = Some raw \<and> raw \<noteq> [] \<longrightarrow>
       fst r = EnqueueBlocks (cleanedBatchBlocks (bypassBlocks st) raw)
                 (getLatestBufferHeight (cleanedBatchBlocks (bypassBlocks st) raw) raw))"
    for r :: "scan_result \<times> FetchService" and b :: "int list option"
  have seq: "R (enqueueSequential c p st0 s) (Some (sequential_enqueuingBlocks c p st0 s))"
    if "bypassBlocks st0 = bypassBlocks st" for st0 s
    using that enqueueSequential_raw [of c p st0 s] unfolding R_def by simp
  have dict: "R (enqueueDictionary p st0 d s f) (Some (dictionary_enqueuingBlocks p d s f))"
    if "bypassBlocks st0 = bypassBlocks st" for st0 d s f
    using that enqueueDictionary_raw [of p d s f st0] unfolding R_def by simp
  have triv: "R r None" for r
    unfolding R_def by simp
  have val: "bypassBlocks st' = bypassBlocks st"
    if "dictionaryValidation p st d s = (ok, st')" for d s ok st'
    using that dictionaryValidation_bypassBlocks [of p st d s] by simp
  have "R (fillNextBlockBuffer_pass c p env st) (enqueuingBlocks_of_pass c p env st)"
    unfolding fillNextBlockBuffer_pass_def enqueuingBlocks_of_pass_def Let_def
    by (auto split: dictionary_query.splits option.splits prod.splits
        intro!: seq dict triv intro: val)
  then show ?thesis using assms unfolding R_def by blast
qed

subsection \<open>The genesis flag is never set again\<close>

lemma filteredBlockBatch_flag:
  "dictionaryGenesisMatches (snd (filteredBlockBatch st b)) = dictionaryGenesisMatches st"
  by (simp add: filteredBlockBatch_def Let_def)

lemma dictionaryValidation_flag:
  "dictionaryValidation p st d s = (ok, st') \<Longrightarrow> dictionaryGenesisMatches st' \<Longrightarrow>
   dictionaryGenesisMatches st"
  by (auto simp: dictionaryValidation_def split: option.splits if_splits)

lemma enqueueSequential_flag:
  "dictionaryGenesisMatches (snd (enqueueSequential c p st s)) = dictionaryGenesisMatches st"
  using filteredBlockBatch_flag
  by (simp add: enqueueSequential_def Let_def split: prod.splits) (metis snd_conv)

lemma enqueueDictionary_flag:
  "dictionaryGenesisMatches (snd (enqueueDictionary p st d s f)) = dictionaryGenesisMatches st"
  using filteredBlockBatch_flag
  by (simp add: enqueueDictionary_def Let_def split: prod.splits) (metis snd_conv)

lemma pass_flag:
  assumes "dictionaryGenesisMatches (snd (fillNextBlockBuffer_pass c p env st))"
  shows "dictionaryGenesisMatches st"
  using assms
  by (auto simp: fillNextBlockBuffer_pass_def Let_def enqueueSequential_flag
        enqueueDictionary_flag
      split: if_splits dictionary_query.splits option.splits prod.splits
      dest: dictionaryValidation_flag)

lemma fetch_call_step_flag:
  assumes n: "\<not> dictionaryGenesisMatches st"
  shows "\<not> dictionaryGenesisMatches (fetch_call_step c p st call)"
proof (cases call)
  case (DictionaryValidation d s)
  then show ?thesis
    using n dictionaryValidation_flag [of p st d s] by (cases "dictionaryValidation p st d s") auto
next
  case (FillNextBlockBufferPass env)
  then show ?thesis using n pass_flag [of c p env st] by auto
next
  case (Init bs h dss meta fin best)
  have "\<not> dictionaryGenesisMatches (snd (dictionaryValidation p st0 meta None))"
    if "\<not> dictionaryGenesisMatches st0" for st0
    using that dictionaryValidation_flag [of p st0 meta None]
    by (cases "dictionaryValidation p st0 meta None") auto
  then show ?thesis using n Init
    by (simp add: init_def Let_def getBestBlockHead_def getFinalizedBlockHead_def
        syncDynamicDatascourcesFromMeta_def split: option.splits)
qed (use n in \<open>simp_all add: onApplicationShutdown_def checkBatchScale_def
      getFinalizedBlockHead_def getBestBlockHead_def syncDynamicDatascourcesFromMeta_def
      filteredBlockBatch_flag split: option.splits\<close>)

lemma fetch_calls_flag:
  "\<not> dictionaryGenesisMatches st \<Longrightarrow> \<not> dictionaryGenesisMatches (fetch_calls c p st calls)"
  unfolding fetch_calls_def
  by (induction calls arbitrary: st) (simp_all add: fetch_call_step_flag)

subsection \<open>Filters and decoding\<close>

lemma parseNearAction_iff:
  "parseNearAction ty a =
     (if ty \<in> Some ` set action_types then Inr a
      else Inl (Error ''Invalid type string for NearAction''))"
  by (auto simp: parseNearAction_def action_types_def)

lemma find_Some_iff_ex: "(\<exists>y. find P xs = Some y) \<longleftrightarrow> (\<exists>x\<in>set xs. P x)"
  by (induction xs) auto

lemma filterActions_ManyFilters:
  "fs \<noteq> [] \<Longrightarrow>
   filterActions actions (ManyFilters fs) =
     filter (\<lambda>a. \<exists>f\<in>set fs. filterAction a (Some f)) actions"
  by (cases fs) (simp_all add: filterActions_def find_Some_iff_ex del: find.simps)

lemma filterActions_OneFilter:
  "filterActions actions (OneFilter f) = filter (\<lambda>a. filterAction a (Some f)) actions"
  by (simp add: filterActions_def)

lemma filterAction_Some:
  "filterAction a (Some f) \<longleftrightarrow>
     filter_type f = None \<or> filter_type f = Some [] \<or> filter_type f = Some (action_type a)"
  by (auto simp: filterAction_def split: option.splits)

subsection \<open>The example projects\<close>

lemma getModulos_modulo_project: "getModulos modulo_project = [100]"
  by (simp add: modulo_project_def getModulos_def handler_modulo_def isCustomDs_def)

lemma getModulos_dictionary_project: "getModulos dictionary_project = [5000]"
  by (simp add: dictionary_project_def getModulos_def handler_modulo_def isCustomDs_def)

lemma getModuloBlocks_dictionary_project:
  "getModuloBlocks dictionary_project 5000 15000 = [5000, 10000]"
  using getModuloBlocks_single [OF getModulos_dictionary_project, of 1 2]
  by (simp add: numeral_2_eq_2)

lemma modulo_only_first_pass:
  assumes "0 < b" "max b 5 \<le> free"
  shows "fst (fillNextBlockBuffer_pass (batch_config b) modulo_project
                (first_pass_env 1000 free 0 QueryThrows) (service_at 1500 []))
         = EnqueueBlocks (map (\<lambda>k. 100 * (10 + int k)) [0..<nat b])
             (Some (100 * (10 + int (nat b - 1))))"
    (is "fst (fillNextBlockBuffer_pass ?cfg _ ?env ?st) = _")
proof -
  have e: "getEnqueuedModuloBlocks ?cfg modulo_project 1000 =
           map (\<lambda>k. 100 * (10 + int k)) [0..<nat b]"
    using getEnqueuedModuloBlocks_single [of modulo_project 100 ?cfg 10] assms(1)
    by (simp add: getModulos_modulo_project batch_config_def)
  have ne: "map (\<lambda>k. 100 * (10 + int k)) [0..<nat b] \<noteq> []" using assms(1) by simp
  have mx: "Max (set (map (\<lambda>k. 100 * (10 + int k)) [0..<nat b])) =
            100 * (10 + int (nat b - 1))"
    using Max_multiples [of 100 "nat b" 10] assms(1) by simp
  have h: "concat (map handlers (dataSources modulo_project)) \<noteq> []"
    "length (getModulos modulo_project) =
     length (concat (map handlers (dataSources modulo_project)))"
    by (simp_all add: getModulos_modulo_project) (simp_all add: modulo_project_def)
  have sc: "scaledBatchSize ?cfg ?st = max b (min 5 (b * 3))"
    by (simp add: scaledBatchSize_def batch_config_def service_at_def)
  have g1: "\<not> freeSize ?env < scaledBatchSize ?cfg ?st"
    unfolding sc using assms by (auto simp: first_pass_env_def)
  have g2: "\<not> useDictionary modulo_project ?st (queryEntries ?env)"
    by (simp add: useDictionary_def first_pass_env_def)
  have g3: "\<not> js_gt (getStartBlockHeight (latestBufferedHeight ?env) (initBlockHeight ?env))
            (if unfinalizedBlocks ?cfg then latestBestHeight ?st
             else latestFinalizedHeight ?st)"
    by (simp add: js_gt_def getStartBlockHeight_def first_pass_env_def service_at_def
        batch_config_def)
  have "fillNextBlockBuffer_pass ?cfg modulo_project ?env ?st =
        enqueueSequential ?cfg modulo_project ?st 1000"
    using pass_without_dictionary [OF g2 g1 g3]
    by (simp add: getStartBlockHeight_def first_pass_env_def)
  also have "\<dots> = (EnqueueBlocks (getEnqueuedModuloBlocks ?cfg modulo_project 1000)
            (getLatestBufferHeight (getEnqueuedModuloBlocks ?cfg modulo_project 1000)
               (getEnqueuedModuloBlocks ?cfg modulo_project 1000)), ?st)"
    by (rule enqueueSequential_modulo_only [OF h]) (simp add: service_at_def)
  finally show ?thesis
    by (simp only: e getLatestBufferHeight_raw [OF ne subset_refl] mx fst_conv)
qed


section \<open>The dictionary path of the fetch loop\<close>




section \<open>The modulo-only path of the fetch loop\<close>

text \<open>
  Claim C2: with every handler a modulo block handler, a single datasource with modulo
  100 and start block 1000, and the finalized head at 1500, the first pass should
  enqueue exactly \<open>[1000, 1100, 1200, 1300, 1400, 1500]\<close> and no height above the head.
  \<open>getEnqueuedModuloBlocks\<close> takes the first \<open>batchSize\<close> multiples from the start
  height and never looks at the head, so this holds for a batch size of 6 only: with a
  batch size of 7 the pass enqueues block 1600, and with a batch size of 100 it enqueues
  the hundred heights from 1000 to 10900.
\<close>

theorem modulo_only_first_scan_beyond_head:
  "fst (fillNextBlockBuffer_pass (batch_config 7) modulo_project
          (first_pass_env 1000 7 0 QueryThrows) (service_at 1500 []))
     = EnqueueBlocks [1000, 1100, 1200, 1300, 1400, 1500, 1600] (Some 1600)
   \<and> fst (fillNextBlockBuffer_pass (batch_config 100) modulo_project
            (first_pass_env 1000 100 0 QueryThrows) (service_at 1500 []))
       = EnqueueBlocks (map (\<lambda>k. 1000 + 100 * int k) [0..<100]) (Some 10900)
   \<and> fst (fillNextBlockBuffer_pass (batch_config 6) modulo_project
            (first_pass_env 1000 6 0 QueryThrows) (service_at 1500 []))
       = EnqueueBlocks [1000, 1100, 1200, 1300, 1400, 1500] (Some 1500)"
proof -
  have u7: "[0..<7] = [0, 1, 2, 3, 4, 5, 6]" and u6: "[0..<6] = [0, 1, 2, 3, 4, 5]"
    by (simp_all add: upt_rec)
  have "fst (fillNextBlockBuffer_pass (batch_config 7) modulo_project
          (first_pass_env 1000 7 0 QueryThrows) (service_at 1500 []))
     = EnqueueBlocks [1000, 1100, 1200, 1300, 1400, 1500, 1600] (Some 1600)"
    using modulo_only_first_pass [of 7 7] by (simp add: u7)
  moreover have "fst (fillNextBlockBuffer_pass (batch_config 100) modulo_project
            (first_pass_env 1000 100 0 QueryThrows) (service_at 1500 []))
       = EnqueueBlocks (map (\<lambda>k. 1000 + 100 * int k) [0..<100]) (Some 10900)"
    using modulo_only_first_pass [of 100 100] by (simp add: algebra_simps)
  moreover have "fst (fillNextBlockBuffer_pass (batch_config 6) modulo_project
            (first_pass_env 1000 6 0 QueryThrows) (service_at 1500 []))
       = EnqueueBlocks [1000, 1100, 1200, 1300, 1400, 1500] (Some 1500)"
    using modulo_only_first_pass [of 6 6] by (simp add: u6)
  ultimately show ?thesis by simp
qed

section \<open>Datasource selection\<close>




section \<open>The cron timestamp filter\<close>




section \<open>Dictionary genesis mismatch\<close>

text \<open>
  Claim C5: once a dictionary answer whose \<open>_metadata.genesisHash\<close> differs from the
  genesis hash of the API pool has been handed to \<open>dictionaryValidation\<close>, then after
  any sequence of later calls that change the service (heads, batch scale, dynamic
  datasources, further validations, bypass filtering, passes of the loop, \<open>init\<close>,
  shutdown) \<open>useDictionary\<close> is false, whatever the dictionary service holds.
\<close>

theorem useDictionary_disabled_after_mismatch:
  assumes "genesisHash (metadata d) \<noteq> apiGenesisHash project"
  shows "\<not> useDictionary project
             (fetch_calls nodeConfig project
                (snd (dictionaryValidation project st (Some d) start)) calls)
             entries"
proof -
  have "\<not> dictionaryGenesisMatches (snd (dictionaryValidation project st (Some d) start))"
    using assms by (simp add: dictionaryValidation_def)
  then have "\<not> dictionaryGenesisMatches
       (fetch_calls nodeConfig project
          (snd (dictionaryValidation project st (Some d) start)) calls)"
    by (rule fetch_calls_flag)
  then show ?thesis by (simp add: useDictionary_def)
qed

theorem useDictionary_disabled_after_mismatch_witness:
  "useDictionary dictionary_project (service_at 50000 []) 1
   \<and> \<not> useDictionary dictionary_project
        (fetch_calls (batch_config 5) dictionary_project
           (snd (dictionaryValidation dictionary_project (service_at 50000 [])
                   (Some (dictionary_answer [5000] ''other chain'')) (Some 5000)))
           [GetFinalizedBlockHead (Some 50001),
            DictionaryValidation (Some (dictionary_answer [5000] ''genesis'')) None,
            FillNextBlockBufferPass
              (first_pass_env 5000 10 1
                 (QueryReturns (Some (dictionary_answer [5000] ''genesis''))))])
        1"
  using useDictionary_disabled_after_mismatch
    [of "dictionary_answer [5000] ''other chain''" dictionary_project "batch_config 5"
        "service_at 50000 []" "Some 5000"
        "[GetFinalizedBlockHead (Some 50001),
          DictionaryValidation (Some (dictionary_answer [5000] ''genesis'')) None,
          FillNextBlockBufferPass
            (first_pass_env 5000 10 1
               (QueryReturns (Some (dictionary_answer [5000] ''genesis''))))]" 1]
  by (simp add: dictionary_answer_def dictionary_project_def useDictionary_def service_at_def)

section \<open>Bypass blocks\<close>

text \<open>
  Claim C6: for every pass of the loop whose raw batch (the batch before the bypass
  blocks are taken out) is not empty, the pass calls \<open>enqueueBlocks\<close> with the raw batch
  cleaned of the bypass list \<open>B\<close> of the service, a list that shares no height with
  \<open>B\<close>, and with the greatest height of the raw batch as the latest buffered height.
  The same holds of \<open>filteredBlockBatch\<close> and \<open>getLatestBufferHeight\<close> on any
  non-empty batch.
\<close>

theorem bypass_cleaned_and_latest_raw:
  assumes "enqueuingBlocks_of_pass nodeConfig project env st = Some raw"
    and "raw \<noteq> []"
  shows "fst (fillNextBlockBuffer_pass nodeConfig project env st) =
           EnqueueBlocks (fst (filteredBlockBatch st raw)) (Some (Max (set raw)))
    \<and> set (fst (filteredBlockBatch st raw)) \<inter> set (bypassBlocks st) = {}
    \<and> (batch \<noteq> [] \<longrightarrow>
         set (fst (filteredBlockBatch st0 batch)) \<inter> set (bypassBlocks st0) = {}
         \<and> getLatestBufferHeight (fst (filteredBlockBatch st0 batch)) batch
             = Some (Max (set batch)))"
proof -
  have latest: "getLatestBufferHeight (cleanedBatchBlocks bypass xs) xs = Some (Max (set xs))"
    if "xs \<noteq> []" for bypass xs
    using getLatestBufferHeight_raw [OF that cleanedBatchBlocks_subset [of bypass xs]] .
  have "fst (fillNextBlockBuffer_pass nodeConfig project env st) =
        EnqueueBlocks (cleanedBatchBlocks (bypassBlocks st) raw) (Some (Max (set raw)))"
    using pass_enqueues_raw [OF assms] latest [OF assms(2)] by simp
  then show ?thesis
    using cleanedBatchBlocks_disjoint latest
    by (simp add: filteredBlockBatch_cleaned)
qed

theorem bypass_cleaned_and_latest_raw_witness:
  "fst (fillNextBlockBuffer_pass (batch_config 5) dictionary_project
          (first_pass_env 10 5 0 QueryThrows) (service_at 14 [14]))
     = EnqueueBlocks [10, 11, 12, 13] (Some 14)
   \<and> fst (fillNextBlockBuffer_pass (batch_config 5) dictionary_project
            (first_pass_env 10 5 0 QueryThrows) (service_at 14 [12]))
       = EnqueueBlocks [10, 11, 13, 14] (Some 14)
   \<and> fst (fillNextBlockBuffer_pass (batch_config 5) dictionary_project
            (first_pass_env 5000 10 1
               (QueryReturns (Some (dictionary_answer [5000, 7000] ''genesis''))))
            (service_at 50000 [10000]))
       = EnqueueBlocks [5000, 5000, 7000] (Some 10000)
   \<and> fst (filteredBlockBatch (service_at 20 [12]) [10, 11, 12, 13, 14]) = [10, 11, 13, 14]
   \<and> getLatestBufferHeight [10, 11, 13, 14] [10, 11, 12, 13, 14] = Some 14
   \<and> bypassBlocks (snd (filteredBlockBatch (service_at 20 [12]) [10, 11, 12, 13, 14])) = []"
proof -
  have r: "[10..14] = [10, 11, 12, 13, 14 :: int]"
    by (simp add: upto_rec1)
  have seq: "enqueuingBlocks_of_pass (batch_config 5) dictionary_project
               (first_pass_env 10 5 0 QueryThrows) (service_at 14 bypass)
             = Some [10, 11, 12, 13, 14]" for bypass
    by (simp add: enqueuingBlocks_of_pass_def sequential_enqueuingBlocks_def batch_config_def
        first_pass_env_def service_at_def scaledBatchSize_def getStartBlockHeight_def
        js_gt_def useDictionary_def nextEndBlockHeight_def getModulos_dictionary_project
        lodash_range_def r)
       (simp add: dictionary_project_def)
  have v: "dictionaryValidation dictionary_project (service_at 50000 [10000])
             (Some (dictionary_answer [5000, 7000] ''genesis'')) (Some 5000)
           = (True, service_at 50000 [10000])"
    by (simp add: dictionaryValidation_def dictionary_answer_def dictionary_project_def)
  have dict: "enqueuingBlocks_of_pass (batch_config 5) dictionary_project
                (first_pass_env 5000 10 1
                   (QueryReturns (Some (dictionary_answer [5000, 7000] ''genesis''))))
                (service_at 50000 [10000])
              = Some [5000, 5000, 7000, 10000]"
  proof -
    have g: "useDictionary dictionary_project (service_at 50000 [10000]) 1"
      by (simp add: useDictionary_def dictionary_project_def service_at_def)
    have e: "dictionary_enqueuingBlocks dictionary_project
               (dictionary_answer [5000, 7000] ''genesis'') 5000 10
             = [5000, 5000, 7000, 10000]"
      by (simp add: dictionary_enqueuingBlocks_def getModuloBlocks_dictionary_project
          dictionary_answer_def sort_asc_def slice0_def)
    show ?thesis
      by (simp add: enqueuingBlocks_of_pass_def g v e first_pass_env_def batch_config_def
          scaledBatchSize_def getStartBlockHeight_def js_gt_def js_ge_def)
         (simp add: service_at_def useDictionary_def dictionary_project_def)
  qed
  show ?thesis
    using bypass_cleaned_and_latest_raw [OF seq [of "[14]"], of "[10, 11, 12, 13, 14]"
          "service_at 20 [12]"]
      bypass_cleaned_and_latest_raw [OF seq [of "[12]"], of "[10, 11, 12, 13, 14]"
          "service_at 20 [12]"]
      bypass_cleaned_and_latest_raw [OF dict, of "[10, 11, 12, 13, 14]" "service_at 20 [12]"]
    by (simp add: filteredBlockBatch_def cleanedBatchBlocks_def without_def lt_math_max_def
        getLatestBufferHeight_def service_at_def)
qed

section \<open>Action decoding\<close>

text \<open>
  Claim C7: \<open>wrapAction\<close> on the string \<open>"CreateAccount"\<close> answers the action with type
  \<open>CreateAccount\<close> and the empty object as payload; on an object it takes the first key
  as the type and that key's value as the payload; and for a type that is none of
  CreateAccount, DeployContract, FunctionCall, Transfer, Stake, AddKey, DeleteKey and
  DeleteAccount (also for an object without a key and for any other string) it throws
  the error \<open>Invalid type string for NearAction\<close>.
\<close>

theorem wrapAction_decoding:
  "wrapAction (ActionString ''CreateAccount'') i tx =
     Inr \<lparr>action_id = i, action_type = ''CreateAccount'', action = Obj [], transaction = tx\<rparr>
   \<and> (k \<in> set action_types \<longrightarrow>
        wrapAction (ActionObject ((k, v) # rest)) i tx =
          Inr \<lparr>action_id = i, action_type = k, action = v, transaction = tx\<rparr>)
   \<and> (k \<notin> set action_types \<longrightarrow>
        wrapAction (ActionObject ((k, v) # rest)) i tx =
          Inl (Error ''Invalid type string for NearAction''))
   \<and> wrapAction (ActionObject []) i tx = Inl (Error ''Invalid type string for NearAction'')
   \<and> (s \<noteq> ''CreateAccount'' \<longrightarrow>
        wrapAction (ActionString s) i tx = Inl (Error ''Invalid type string for NearAction''))
   \<and> (ty \<notin> Some ` set action_types \<longrightarrow>
        parseNearAction ty a = Inl (Error ''Invalid type string for NearAction''))"
  by (auto simp: wrapAction_def first_key_def parseNearAction_iff image_iff action_types_def
      split: list.splits)

theorem wrapAction_decoding_witness:
  "wrapAction (ActionObject [(''Transfer'', Obj [(''deposit'', Str ''1'')])]) 3 ''tx'' =
     Inr \<lparr>action_id = 3, action_type = ''Transfer'', action = Obj [(''deposit'', Str ''1'')],
          transaction = ''tx''\<rparr>
   \<and> wrapAction (ActionObject [(''Mint'', Obj [])]) 3 ''tx'' =
       Inl (Error ''Invalid type string for NearAction'')
   \<and> wrapAction (ActionString ''Transfer'') 3 ''tx'' =
       Inl (Error ''Invalid type string for NearAction'')
   \<and> parseNearAction None Undefined = Inl (Error ''Invalid type string for NearAction'')"
  using wrapAction_decoding [of 3 "''tx''" "''Transfer''" "Obj [(''deposit'', Str ''1'')]" "[]"
      "''Transfer''" None Undefined]
    wrapAction_decoding [of 3 "''tx''" "''Mint''" "Obj []" "[]" "''Transfer''" None Undefined]
  by (simp add: action_types_def)

section \<open>Unavailable blocks in the worker\<close>

text \<open>
  Claim C8: \<open>processBlock(h)\<close> answers \<open>{blockHash: null, dynamicDsCreated: false,
  reindexBlockHeight: null}\<close> without throwing when the fetched entry for \<open>h\<close> is
  \<open>null\<close>, and it throws again every other error of its \<open>try\<close> block: that the block has
  not been fetched, a failure of \<open>getAllDataSources\<close>, a failure of \<open>indexBlock\<close>. In
  every case the worker is no longer indexing afterwards.
\<close>

theorem processBlock_unavailable_or_rethrow:
  "(fetchedBlocks_at w height = FetchedNull \<longrightarrow>
      processBlock allDataSources indexBlock height w =
        (Inr \<lparr>blockHash = None, dynamicDsCreated = False, reindexBlockHeight = None\<rparr>,
         w\<lparr>worker_log := worker_log w @ [LogWarn (BlockUnavailableError height)],
           isIndexing := False\<rparr>))
   \<and> (fetchedBlocks_at w height = FetchedUndefined \<longrightarrow>
        fst (processBlock allDataSources indexBlock height w) = Inl (BlockNotFetched height))
   \<and> (fetchedBlocks_at w height = FetchedBlock block \<and> allDataSources = Inl e \<longrightarrow>
        fst (processBlock allDataSources indexBlock height w) = Inl (External e))
   \<and> (fetchedBlocks_at w height = FetchedBlock block \<and> allDataSources = Inr dss
        \<and> indexBlock block dss = Inl e \<longrightarrow>
        fst (processBlock allDataSources indexBlock height w) = Inl (External e))
   \<and> (fst (processBlock_try allDataSources indexBlock height w) = Inl err
        \<and> err \<noteq> BlockUnavailableError height \<longrightarrow>
        fst (processBlock allDataSources indexBlock height w) = Inl err)
   \<and> \<not> isIndexing (snd (processBlock allDataSources indexBlock height w))"
  by (auto simp: processBlock_def processBlock_try_def fetchedBlocks_at_def Let_def
      split: option.splits fetched.splits sum.splits worker_error.splits)

theorem processBlock_unavailable_or_rethrow_witness:
  "fst (processBlock (Inr []) (\<lambda>b dss. Inl ''handler failed'') 42 example_worker) =
     Inr \<lparr>blockHash = None, dynamicDsCreated = False, reindexBlockHeight = None\<rparr>
   \<and> fst (processBlock (Inr ([] :: SubqlProjectDs list)) (\<lambda>b dss. Inl ''handler failed'') 43
            example_worker) =
       Inl (External ''handler failed'')
   \<and> fst (processBlock (Inr ([] :: SubqlProjectDs list)) (\<lambda>b dss. Inl ''handler failed'') 44
            example_worker) =
       Inl (BlockNotFetched 44)"
  using processBlock_unavailable_or_rethrow
      [of example_worker 42 "Inr ([] :: SubqlProjectDs list)" "\<lambda>b dss. Inl ''handler failed''"
          "''block43''" "''handler failed''" "[]" "BlockNotFetched 42"]
    processBlock_unavailable_or_rethrow
      [of example_worker 43 "Inr ([] :: SubqlProjectDs list)" "\<lambda>b dss. Inl ''handler failed''"
          "''block43''" "''handler failed''" "[]" "External ''handler failed''"]
    processBlock_unavailable_or_rethrow
      [of example_worker 44 "Inr ([] :: SubqlProjectDs list)" "\<lambda>b dss. Inl ''handler failed''"
          "''block43''" "''handler failed''" "[]" "BlockNotFetched 44"]
  by (simp add: example_worker_def fetchedBlocks_at_def processBlock_def processBlock_try_def)

section \<open>Action filters\<close>

text \<open>
  Claim C9, as stated: a filter passes an action exactly when its type is unset or equal
  to the action's type. It fails for a filter whose type is set to the empty string:
  \<open>filter.type ? ... : true\<close> takes the empty string for unset, so the filter passes a
  \<open>Transfer\<close> action although its type is set and differs.
\<close>

theorem filterActions_empty_type_counterexample:
  "filterActions
     [\<lparr>action_id = 0, action_type = ''Transfer'', action = Obj [], transaction = ''tx''\<rparr>]
     (OneFilter \<lparr>filter_type = Some ''''\<rparr>)
   \<noteq> filter
       (\<lambda>a. filter_type \<lparr>filter_type = Some ''''\<rparr> = None
            \<or> filter_type \<lparr>filter_type = Some ''''\<rparr> = Some (action_type a))
       [\<lparr>action_id = 0, action_type = ''Transfer'', action = Obj [], transaction = ''tx''\<rparr>]"
  by (simp add: filterActions_def filterAction_def)

text \<open>
  Claim C9, amended: \<open>filterActions\<close> answers the list unchanged when the filter argument
  is \<open>undefined\<close> or an empty array; otherwise an action is kept exactly when at least one
  filter passes it, where a filter passes an action exactly when its type is unset or
  the empty string, or equal to the action's type.
\<close>

theorem filterActions_any_filter:
  "filterActions actions NoFilter = actions
   \<and> filterActions actions (ManyFilters []) = actions
   \<and> (fs \<noteq> [] \<longrightarrow>
        filterActions actions (ManyFilters fs) =
          filter (\<lambda>a. \<exists>f\<in>set fs. filterAction a (Some f)) actions)
   \<and> filterActions actions (OneFilter f) = filter (\<lambda>a. filterAction a (Some f)) actions
   \<and> (filterAction a (Some f) \<longleftrightarrow>
        filter_type f = None \<or> filter_type f = Some [] \<or> filter_type f = Some (action_type a))"
  using filterActions_ManyFilters [of fs actions] filterActions_OneFilter [of actions f]
    filterAction_Some [of a f]
  by (simp add: filterActions_def)

theorem filterActions_any_filter_witness:
  "filterActions
     [\<lparr>action_id = 0, action_type = ''Transfer'', action = Obj [], transaction = ''tx''\<rparr>,
      \<lparr>action_id = 1, action_type = ''Stake'', action = Obj [], transaction = ''tx''\<rparr>,
      \<lparr>action_id = 2, action_type = ''AddKey'', action = Obj [], transaction = ''tx''\<rparr>]
     (ManyFilters [\<lparr>filter_type = Some ''AddKey''\<rparr>, \<lparr>filter_type = Some ''Transfer''\<rparr>])
   = [\<lparr>action_id = 0, action_type = ''Transfer'', action = Obj [], transaction = ''tx''\<rparr>,
      \<lparr>action_id = 2, action_type = ''AddKey'', action = Obj [], transaction = ''tx''\<rparr>]"
  using filterActions_any_filter
    [of "[\<lparr>action_id = 0, action_type = ''Transfer'', action = Obj [], transaction = ''tx''\<rparr>,
      \<lparr>action_id = 1, action_type = ''Stake'', action = Obj [], transaction = ''tx''\<rparr>,
      \<lparr>action_id = 2, action_type = ''AddKey'', action = Obj [], transaction = ''tx''\<rparr>]"
     "[\<lparr>filter_type = Some ''AddKey''\<rparr>, \<lparr>filter_type = Some ''Transfer''\<rparr>]"
     "\<lparr>filter_type = Some ''AddKey''\<rparr>"
     "\<lparr>action_id = 2, action_type = ''AddKey'', action = Obj [], transaction = ''tx''\<rparr>"]
  by (simp add: filterAction_def)

section \<open>Fetching a block in the worker\<close>

text \<open>
  Claim C10: \<open>fetchBlock(h)\<close> never rejects: its promise always resolves to \<open>undefined\<close>.
  When the queued task fails with an error (a failure of \<open>apiService.fetchBlocks\<close> is
  one), the error is logged as the last line of the log and the fetched-block map is
  what it was before the call.
\<close>

theorem fetchBlock_never_rejects:
  "fst (fetchBlock putRejects locked fetchBlocks height w) = Inr None
   \<and> (fst (queue_put putRejects (fetchBlock_task locked fetchBlocks height) w) = Inl err \<longrightarrow>
        fetchedBlocks (snd (fetchBlock putRejects locked fetchBlocks height w)) = fetchedBlocks w
        \<and> last (worker_log (snd (fetchBlock putRejects locked fetchBlocks height w)))
            = LogErrorFailedToFetch height err)
   \<and> (putRejects = None \<and> \<not> truthy (fetchedBlocks_at w height)
        \<and> fetchBlocks [height] = Inl e \<longrightarrow>
        fst (queue_put putRejects (fetchBlock_task locked fetchBlocks height) w)
          = Inl (External e))"
  by (auto simp: fetchBlock_def queue_put_def fetchBlock_task_def Let_def
      split: option.splits sum.splits prod.splits if_splits)

theorem fetchBlock_never_rejects_witness:
  "fetchBlock None False (\<lambda>hs. Inl ''rpc unreachable'') 44 example_worker =
     (Inr None,
      example_worker\<lparr>worker_log := [LogErrorFailedToFetch 44 (External ''rpc unreachable'')]\<rparr>)
   \<and> fetchedBlocks
        (snd (fetchBlock None False (\<lambda>hs. Inl ''rpc unreachable'') 44 example_worker)) 44
       = None"
  using fetchBlock_never_rejects
    [of None False "\<lambda>hs. Inl ''rpc unreachable''" 44 example_worker
        "External ''rpc unreachable''" "''rpc unreachable''"]
  by (simp add: fetchBlock_def queue_put_def fetchBlock_task_def example_worker_def
      fetchedBlocks_at_def truthy_def)

end
